theory Spec2Isabelle
  imports Main
begin

section \<open>Values exchanged by the page\<close>

text \<open>
  \<open>src/pages/index.tsx\<close> moves JSON values between the browser, the save endpoint, the S3
  bucket and the render function. A JSON value is a tree; an object keeps its members in
  insertion order, which is the order \<open>JSON.stringify\<close> prints them in.
\<close>

datatype json =
    JNull
  | JBool bool
  | JNum int
  | JStr string
  | JArr "json list"
  | JObj "(string \<times> json) list"

text \<open>
  \<open>JSON.parse\<close> and \<open>JSON.stringify\<close> belong to the JavaScript platform, not to the
  repository, so the program is modelled over an arbitrary pair of them. \<open>JSON.parse\<close>
  throws a \<open>SyntaxError\<close> on malformed text: that is the answer \<open>None\<close>.
\<close>

record json_codec =
  JSON_parse :: "string \<Rightarrow> json option"
  JSON_stringify :: "json \<Rightarrow> string"

text \<open>
  The exceptions that can reach a \<open>catch\<close> of the page. An error of the AWS SDK carries a
  \<open>statusCode\<close> when the service answered (and none when the network failed); the errors of
  the language itself have no such property, so reading it gives \<open>undefined\<close>.
\<close>

datatype exn =
    AWSError "int option"
  | SyntaxError
  | TypeError
  | Error string

fun statusCode :: "exn \<Rightarrow> int option" where
  "statusCode (AWSError c) = c"
| "statusCode SyntaxError = None"
| "statusCode TypeError = None"
| "statusCode (Error m) = None"

section \<open>The S3 client\<close>

text \<open>
  \<open>s3.getObject({Bucket, Key}).promise()\<close> either resolves with the object, whose
  \<open>Body.toString()\<close> is the stored text, or rejects with an error. What the bucket answers
  for a key is the field \<open>respond\<close>; \<open>requested\<close> records the keys that were asked for, so
  that "no storage access" can be stated.
\<close>

record s3_client =
  respond :: "string \<Rightarrow> exn + string"
  requested :: "string list"

definition getObject :: "s3_client \<Rightarrow> string \<Rightarrow> (exn + string) \<times> s3_client" where
  "getObject s3 key = (respond s3 key, s3\<lparr>requested := requested s3 @ [key]\<rparr>)"

section \<open>getStaticProps\<close>

text \<open>
  The props object has three shapes in the source; a key that a shape does not have is
  \<open>None\<close> here. \<open>previewData\<close> is \<open>{snapshotId}\<close> when it is set and \<open>undefined\<close>
  (\<open>None\<close>) otherwise.
\<close>

record props =
  isPreview :: bool
  snapshotId :: "string option"
  contents :: "json option"
  hasError :: "bool option"
  message :: "string option"

record preview_data =
  ref_snapshotId :: string

text \<open>The body of the \<open>try\<close> block (lines 37 to 44): the fetch, then the parse.\<close>

definition fetch_contents :: "json_codec \<Rightarrow> s3_client \<Rightarrow> string \<Rightarrow> (exn + json) \<times> s3_client" where
  "fetch_contents codec s3 sid =
     (case getObject s3 (sid @ ''.json'') of
        (Inl e, s3') \<Rightarrow> (Inl e, s3')
      | (Inr body, s3') \<Rightarrow>
          (case JSON_parse codec body of
             None \<Rightarrow> (Inl SyntaxError, s3')
           | Some c \<Rightarrow> (Inr c, s3')))"

text \<open>The message chosen in the \<open>catch\<close> block (lines 56 to 58).\<close>

definition error_message :: "exn \<Rightarrow> string" where
  "error_message e =
     (if statusCode e = Some 403
      then ''The requested preview edit does not exist!''
      else ''An error has occurred while connecting to S3. Please refresh the page to try again.'')"

text \<open>
  The destructuring of \<open>previewData\<close> (line 33) stands before the \<open>try\<close>: with
  \<open>previewData\<close> undefined it throws a \<open>TypeError\<close> that nothing catches, the result
  \<open>Inl TypeError\<close>.
\<close>

definition getStaticProps ::
  "json_codec \<Rightarrow> s3_client \<Rightarrow> bool \<Rightarrow> preview_data option \<Rightarrow> (exn + props) \<times> s3_client" where
  "getStaticProps codec s3 preview previewData =
     (if preview then
        (case previewData of
           None \<Rightarrow> (Inl TypeError, s3)
         | Some pd \<Rightarrow>
             (case fetch_contents codec s3 (ref_snapshotId pd) of
                (Inr c, s3') \<Rightarrow>
                  (Inr \<lparr>isPreview = True, snapshotId = Some (ref_snapshotId pd),
                        contents = Some c, hasError = None, message = None\<rparr>, s3')
              | (Inl e, s3') \<Rightarrow>
                  (Inr \<lparr>isPreview = False, snapshotId = None, contents = None,
                        hasError = Some True, message = Some (error_message e)\<rparr>, s3')))
      else (Inr \<lparr>isPreview = False, snapshotId = None, contents = None,
                 hasError = None, message = None\<rparr>, s3))"

text \<open>
  What \<open>Home\<close> renders from the props (lines 124 and 150 to 173): the error view with the
  message when \<open>hasError\<close> is set, else the content with the fetched edits in preview
  mode and with no edits outside it. The "Preview Mode" banner shows when \<open>isPreview\<close> or
  \<open>hasError\<close> is set.
\<close>

datatype RenderDecision =
    Normal
  | Preview "json option"
  | ErrorPage "string option"

definition render_decision :: "props \<Rightarrow> RenderDecision" where
  "render_decision p =
     (if hasError p = Some True then ErrorPage (message p)
      else if isPreview p then Preview (contents p)
      else Normal)"

definition banner_shown :: "props \<Rightarrow> bool" where
  "banner_shown p = (isPreview p \<or> hasError p = Some True)"

section \<open>The preview gate\<close>

text \<open>
  \<open>PreviewGate.resolve\<close> of the spec is \<open>getStaticProps\<close> followed by the choice of view
  that \<open>Home\<close> makes from the props.
\<close>

definition resolve ::
  "json_codec \<Rightarrow> s3_client \<Rightarrow> bool \<Rightarrow> preview_data option \<Rightarrow> exn + RenderDecision" where
  "resolve codec s3 previewFlag ref =
     (case fst (getStaticProps codec s3 previewFlag ref) of
        Inl e \<Rightarrow> Inl e
      | Inr p \<Rightarrow> Inr (render_decision p))"

section \<open>The snapshot service and the blob store\<close>

text \<open>
  A field edit, as \<open>share\<close> builds it (line 99): the id of the region and its text.
\<close>

record FieldEdit =
  fe_id :: string
  fe_innerText :: string

definition FieldEdit_json :: "FieldEdit \<Rightarrow> json" where
  "FieldEdit_json e = JObj [(''id'', JStr (fe_id e)), (''innerText'', JStr (fe_innerText e))]"

definition edits_json :: "FieldEdit list \<Rightarrow> json" where
  "edits_json es = JArr (map FieldEdit_json es)"

definition json_FieldEdit :: "json \<Rightarrow> FieldEdit option" where
  "json_FieldEdit j =
     (case j of
        JObj ms \<Rightarrow>
          (case (map_of ms ''id'', map_of ms ''innerText'') of
             (Some (JStr i), Some (JStr t)) \<Rightarrow> Some \<lparr>fe_id = i, fe_innerText = t\<rparr>
           | _ \<Rightarrow> None)
      | _ \<Rightarrow> None)"

fun json_edits_list :: "json list \<Rightarrow> FieldEdit list option" where
  "json_edits_list [] = Some []"
| "json_edits_list (j # js) =
     (case json_FieldEdit j of
        None \<Rightarrow> None
      | Some e \<Rightarrow> (case json_edits_list js of None \<Rightarrow> None | Some es \<Rightarrow> Some (e # es)))"

definition json_edits :: "json \<Rightarrow> FieldEdit list option" where
  "json_edits j = (case j of JArr js \<Rightarrow> json_edits_list js | _ \<Rightarrow> None)"

text \<open>
  Modelled from the spec: the write side of the BlobStore (section 4.4), which no file
  under \<open>src/\<close> calls. A completed \<open>put\<close> makes every later \<open>get\<close> of the key answer with
  the whole new content.
\<close>

definition BlobStore_put :: "s3_client \<Rightarrow> string \<Rightarrow> string \<Rightarrow> s3_client" where
  "BlobStore_put s3 key bytes = s3\<lparr>respond := (respond s3)(key := Inr bytes)\<rparr>"

text \<open>
  Modelled from the spec: a bucket described by the objects it holds (sections 4.3 and
  4.4, and the comment on lines 54 and 55 of the source). A \<open>get\<close> of a key that holds
  nothing fails as "not accessible", which this deployment reports as status 403.
\<close>

definition BlobStore_of :: "(string \<rightharpoonup> string) \<Rightarrow> s3_client" where
  "BlobStore_of objs =
     \<lparr>respond = (\<lambda>k. case objs k of None \<Rightarrow> Inl (AWSError (Some 403)) | Some b \<Rightarrow> Inr b),
      requested = []\<rparr>"

text \<open>
  Modelled from the spec: \<open>SnapshotService.save\<close> (section 4.2), the handler of
  \<open>/api/save\<close>, which is not under \<open>src/\<close>. The payload must have the shape of a sequence
  of field edits, else \<open>ValidationError\<close>; the edits are serialised to a JSON array and
  written under \<open>"<id>.json"\<close>; the id is returned. \<open>fresh\<close> is the identifier minted for
  this call and \<open>write_failure\<close> the detail of a failing write, if the write fails.
\<close>

datatype save_error = ValidationError | StorageWriteError string

definition SnapshotService_save ::
  "json_codec \<Rightarrow> string \<Rightarrow> string option \<Rightarrow> s3_client \<Rightarrow> json \<Rightarrow> save_error + (string \<times> s3_client)" where
  "SnapshotService_save codec fresh write_failure s3 payload =
     (case json_edits payload of
        None \<Rightarrow> Inl ValidationError
      | Some es \<Rightarrow>
          (case write_failure of
             Some detail \<Rightarrow> Inl (StorageWriteError detail)
           | None \<Rightarrow>
               Inr (fresh, BlobStore_put s3 (fresh @ ''.json'') (JSON_stringify codec (edits_json es)))))"

section \<open>The page in the browser\<close>

text \<open>
  An element of the document: its attributes, its \<open>innerText\<close> as the browser computes it,
  and its child elements in document order.
\<close>

datatype element = Element (attributes: "(string \<times> string) list") (innerText: string)
  (childElements: "element list")

definition hasAttribute :: "element \<Rightarrow> string \<Rightarrow> bool" where
  "hasAttribute e a = (map_of (attributes e) a \<noteq> None)"

text \<open>The \<open>id\<close> property reflects the attribute and is the empty string without it.\<close>

definition element_id :: "element \<Rightarrow> string" where
  "element_id e = (case map_of (attributes e) ''id'' of None \<Rightarrow> [] | Some v \<Rightarrow> v)"

definition contenteditable_true :: "element \<Rightarrow> bool" where
  "contenteditable_true e = (map_of (attributes e) ''contenteditable'' = Some ''true'')"

text \<open>
  \<open>querySelectorAll('[id] > [contenteditable=true]')\<close> (line 96): the elements with
  \<open>contenteditable="true"\<close> whose parent element has an \<open>id\<close> attribute, in document order
  (an element before its descendants). Each match is paired with its \<open>parentNode\<close>, which
  line 99 reads. The root element has no parent element and never matches.
\<close>

fun select_below :: "element \<Rightarrow> (element \<times> element) list" where
  "select_below (Element as t cs) =
     concat (map (\<lambda>c. (if hasAttribute (Element as t cs) ''id'' \<and> contenteditable_true c
                        then [(Element as t cs, c)] else []) @ select_below c) cs)"

definition querySelectorAll :: "element \<Rightarrow> (element \<times> element) list" where
  "querySelectorAll document = select_below document"

definition persistContents :: "element \<Rightarrow> FieldEdit list" where
  "persistContents document =
     map (\<lambda>(p, c). \<lparr>fe_id = element_id p, fe_innerText = innerText c\<rparr>) (querySelectorAll document)"

text \<open>The pairs of a parent and one of its children anywhere in the tree.\<close>

fun parent_child :: "element \<Rightarrow> (element \<times> element) set" where
  "parent_child (Element as t cs) =
     (\<lambda>c. (Element as t cs, c)) ` set cs \<union> (\<Union>c \<in> set cs. parent_child c)"

record request =
  url :: string
  http_method :: string
  body :: string
  content_type :: string

text \<open>
  The state of \<open>Home\<close> (lines 70 to 90): four \<open>useState\<close> cells and the ref
  \<open>hasSaveRequest\<close>. \<open>None\<close> is \<open>null\<close> (or \<open>undefined\<close>).
\<close>

record home_state =
  currentSnapshotId :: "json option"
  isEdit :: bool
  hasSaveRequest :: bool
  isSharingView :: bool
  currentError :: "exn option"

definition clearSnapshot :: "home_state \<Rightarrow> home_state" where
  "clearSnapshot s = s\<lparr>currentSnapshotId := None\<rparr>"

definition toggleEdit :: "home_state \<Rightarrow> home_state" where
  "toggleEdit s = s\<lparr>isEdit := \<not> isEdit s\<rparr>"

definition setSharing :: "bool \<Rightarrow> home_state \<Rightarrow> home_state" where
  "setSharing sharing s = s\<lparr>hasSaveRequest := sharing, isSharingView := sharing\<rparr>"

definition onClearError :: "home_state \<Rightarrow> home_state" where
  "onClearError s = s\<lparr>currentError := None\<rparr>"

text \<open>
  The browser around the component: the requests that went out and the number of them
  whose response has not arrived yet.
\<close>

record browser =
  home :: home_state
  sent :: "request list"
  inflight :: nat

text \<open>\<open>share\<close>, up to the call of \<open>fetch\<close> (lines 93 to 106).\<close>

definition share :: "json_codec \<Rightarrow> element \<Rightarrow> browser \<Rightarrow> browser" where
  "share codec document b =
     (if hasSaveRequest (home b) then b
      else b\<lparr>home := setSharing True (home b),
             sent := sent b @
               [\<lparr>url = ''/api/save'', http_method = ''POST'',
                 body = JSON_stringify codec (edits_json (persistContents document)),
                 content_type = ''application/json''\<rparr>],
             inflight := Suc (inflight b)\<rparr>)"

text \<open>
  How the request ends. \<open>fetch\<close> rejects when the server cannot be reached; otherwise it
  resolves with a response, whose \<open>ok\<close> flag is known at once and whose body is read
  afterwards (\<open>res.json()\<close>, \<open>res.text()\<close>), a read that can fail in its turn.
\<close>

datatype fetch_outcome = Rejected exn | Response bool "exn + string"

datatype 'a promise = Fulfilled 'a | RejectedWith exn | Pending

text \<open>
  The first \<open>then\<close> (lines 107 to 112). For a response that is not ok the handler returns
  \<open>new Promise(async (_, reject) => reject(new Error(await res.text())))\<close>: when
  \<open>res.text()\<close> rejects, the rejection belongs to the promise of the async executor,
  which the constructor drops, and \<open>reject\<close> is never called; the promise stays pending.
\<close>

definition response_promise :: "json_codec \<Rightarrow> fetch_outcome \<Rightarrow> json promise" where
  "response_promise codec r =
     (case r of
        Rejected e \<Rightarrow> RejectedWith e
      | Response ok b \<Rightarrow>
          (if ok then
             (case b of
                Inl e \<Rightarrow> RejectedWith e
              | Inr t \<Rightarrow> (case JSON_parse codec t of None \<Rightarrow> RejectedWith SyntaxError
                                                  | Some j \<Rightarrow> Fulfilled j))
           else
             (case b of
                Inl e \<Rightarrow> Pending
              | Inr t \<Rightarrow> RejectedWith (Error t))))"

text \<open>Reading the property \<open>snapshotId\<close> of a parsed value; \<open>None\<close> is \<open>undefined\<close>.\<close>

definition snapshotId_of :: "json \<Rightarrow> json option" where
  "snapshotId_of j = (case j of JObj ms \<Rightarrow> map_of ms ''snapshotId'' | _ \<Rightarrow> None)"

text \<open>
  The second \<open>then\<close>, the \<open>catch\<close> and the \<open>finally\<close> (lines 113 to 121). Destructuring
  \<open>null\<close> throws a \<open>TypeError\<close>. Nothing runs while the promise is pending.
\<close>

definition save_settled :: "json_codec \<Rightarrow> fetch_outcome \<Rightarrow> home_state \<Rightarrow> home_state" where
  "save_settled codec r s =
     (case response_promise codec r of
        Pending \<Rightarrow> s
      | RejectedWith e \<Rightarrow> setSharing False (s\<lparr>currentError := Some e\<rparr>)
      | Fulfilled j \<Rightarrow>
          (if j = JNull then setSharing False (s\<lparr>currentError := Some TypeError\<rparr>)
           else setSharing False (s\<lparr>currentSnapshotId := snapshotId_of j\<rparr>)))"

text \<open>
  The events of a session. A click on "share" reaches \<open>share\<close> only while the
  \<open>Snapshot\<close> bar is rendered, that is in edit mode (lines 175 to 182); a response can
  only arrive for a request that is out.
\<close>

datatype event =
    ToggleEdit
  | Share element
  | Settled fetch_outcome
  | ClearSnapshot
  | ClearError

fun step :: "json_codec \<Rightarrow> browser \<Rightarrow> event \<Rightarrow> browser" where
  "step codec b ToggleEdit = b\<lparr>home := toggleEdit (home b)\<rparr>"
| "step codec b (Share document) = (if isEdit (home b) then share codec document b else b)"
| "step codec b (Settled r) =
     (if inflight b = 0 then b
      else b\<lparr>home := save_settled codec r (home b), inflight := inflight b - 1\<rparr>)"
| "step codec b ClearSnapshot = b\<lparr>home := clearSnapshot (home b)\<rparr>"
| "step codec b ClearError = b\<lparr>home := onClearError (home b)\<rparr>"

definition run :: "json_codec \<Rightarrow> browser \<Rightarrow> event list \<Rightarrow> browser" where
  "run codec b es = foldl (step codec) b es"

definition initial_home :: home_state where
  "initial_home =
     \<lparr>currentSnapshotId = None, isEdit = False, hasSaveRequest = False,
      isSharingView = False, currentError = None\<rparr>"

definition initial :: browser where
  "initial = \<lparr>home = initial_home, sent = [], inflight = 0\<rparr>"

text \<open>
  The number of accepted transitions into sharing along a run: the steps at which
  \<open>isSharingView\<close> turns from false to true.
\<close>

fun entries_into_sharing :: "json_codec \<Rightarrow> browser \<Rightarrow> event list \<Rightarrow> nat" where
  "entries_into_sharing codec b [] = 0"
| "entries_into_sharing codec b (e # es) =
     (if \<not> isSharingView (home b) \<and> isSharingView (home (step codec b e)) then 1 else 0)
     + entries_into_sharing codec (step codec b e) es"

text \<open>
  What the page shows, read as the session state of the spec. The dialogs are rendered
  when their cell is truthy (lines 134 and 143), the \<open>Snapshot\<close> bar in edit mode with
  the flag \<open>isSharing\<close>, and the \<open>Edit\<close> button otherwise (lines 175 to 185).
\<close>

fun truthy :: "json \<Rightarrow> bool" where
  "truthy JNull = False"
| "truthy (JBool b) = b"
| "truthy (JNum n) = (n \<noteq> 0)"
| "truthy (JStr s) = (s \<noteq> [])"
| "truthy (JArr xs) = True"
| "truthy (JObj ms) = True"

datatype SessionState = Viewing | Editing | Sharing | ShowingLink json | ShowingError exn

definition shown_link :: "home_state \<Rightarrow> json option" where
  "shown_link s =
     (case currentSnapshotId s of None \<Rightarrow> None | Some j \<Rightarrow> if truthy j then Some j else None)"

definition session_state :: "home_state \<Rightarrow> SessionState" where
  "session_state s =
     (case currentError s of
        Some e \<Rightarrow> ShowingError e
      | None \<Rightarrow>
          (case shown_link s of
             Some j \<Rightarrow> ShowingLink j
           | None \<Rightarrow> if isEdit s then (if isSharingView s then Sharing else Editing) else Viewing))"

section \<open>A codec to run the model on\<close>

text \<open>
  To evaluate the program on concrete inputs the two platform functions need an
  instance. This one prints a JSON value without white space, the way \<open>JSON.stringify\<close>
  does, escaping the quote and the backslash, and reads that format back; numbers are
  integers. The reader takes fuel, one unit for each nested call.
\<close>

definition quote :: char where "quote = CHR 0x22"
definition backslash :: char where "backslash = CHR 0x5C"

fun escape :: "string \<Rightarrow> string" where
  "escape [] = []"
| "escape (c # cs) = (if c = quote \<or> c = backslash then backslash # c # escape cs else c # escape cs)"

definition quoted :: "string \<Rightarrow> string" where
  "quoted s = quote # escape s @ [quote]"

fun join :: "string list \<Rightarrow> string" where
  "join [] = []"
| "join [x] = x"
| "join (x # y # ys) = x @ '','' @ join (y # ys)"

definition digit :: "nat \<Rightarrow> char" where
  "digit d = char_of (of_char CHR ''0'' + d)"

fun digits :: "nat \<Rightarrow> nat \<Rightarrow> string" where
  "digits 0 n = []"
| "digits (Suc f) n = (if n < 10 then [digit n] else digits f (n div 10) @ [digit (n mod 10)])"

fun print_json :: "json \<Rightarrow> string" where
  "print_json JNull = ''null''"
| "print_json (JBool b) = (if b then ''true'' else ''false'')"
| "print_json (JNum n) = (if n < 0 then CHR ''-'' # digits (Suc (nat (- n))) (nat (- n)) else digits (Suc (nat n)) (nat n))"
| "print_json (JStr s) = quoted s"
| "print_json (JArr xs) = ''['' @ join (map print_json xs) @ '']''"
| "print_json (JObj ms) = ''{'' @ join (map (\<lambda>m. quoted (fst m) @ '':'' @ print_json (snd m)) ms) @ ''}''"

fun read_chars :: "string \<Rightarrow> (string \<times> string) option" where
  "read_chars [] = None"
| "read_chars (c # cs) =
     (if c = quote then Some ([], cs)
      else if c = backslash then
        (case cs of
           [] \<Rightarrow> None
         | d # ds \<Rightarrow>
             if d = quote \<or> d = backslash
             then (case read_chars ds of None \<Rightarrow> None | Some (s, r) \<Rightarrow> Some (d # s, r))
             else None)
      else (case read_chars cs of None \<Rightarrow> None | Some (s, r) \<Rightarrow> Some (c # s, r)))"

definition is_digit :: "char \<Rightarrow> bool" where
  "is_digit c = (48 \<le> (of_char c :: nat) \<and> (of_char c :: nat) \<le> 57)"

fun read_digits :: "nat \<Rightarrow> string \<Rightarrow> nat \<times> string" where
  "read_digits acc [] = (acc, [])"
| "read_digits acc (c # cs) =
     (if is_digit c then read_digits (10 * acc + (of_char c - 48)) cs else (acc, c # cs))"

definition read_number :: "string \<Rightarrow> (json \<times> string) option" where
  "read_number s =
     (case s of
        [] \<Rightarrow> None
      | c # cs \<Rightarrow>
          if is_digit c then (case read_digits 0 s of (n, r) \<Rightarrow> Some (JNum (int n), r))
          else if c = CHR ''-'' \<and> cs \<noteq> [] \<and> is_digit (hd cs)
          then (case read_digits 0 cs of (n, r) \<Rightarrow> Some (JNum (- int n), r))
          else None)"

fun read_value :: "nat \<Rightarrow> string \<Rightarrow> (json \<times> string) option"
  and read_elements :: "nat \<Rightarrow> string \<Rightarrow> (json list \<times> string) option"
  and read_members :: "nat \<Rightarrow> string \<Rightarrow> ((string \<times> json) list \<times> string) option" where
  "read_value 0 s = None"
| "read_value (Suc f) s =
     (case s of
        [] \<Rightarrow> None
      | c # cs \<Rightarrow>
          if c = quote then (case read_chars cs of None \<Rightarrow> None | Some (t, r) \<Rightarrow> Some (JStr t, r))
          else if c = CHR ''['' then
            (case cs of
               [] \<Rightarrow> None
             | d # ds \<Rightarrow> if d = CHR '']'' then Some (JArr [], ds)
                         else (case read_elements f cs of None \<Rightarrow> None | Some (xs, r) \<Rightarrow> Some (JArr xs, r)))
          else if c = CHR ''{'' then
            (case cs of
               [] \<Rightarrow> None
             | d # ds \<Rightarrow> if d = CHR ''}'' then Some (JObj [], ds)
                         else (case read_members f cs of None \<Rightarrow> None | Some (ms, r) \<Rightarrow> Some (JObj ms, r)))
          else if take 4 s = ''null'' then Some (JNull, drop 4 s)
          else if take 4 s = ''true'' then Some (JBool True, drop 4 s)
          else if take 5 s = ''false'' then Some (JBool False, drop 5 s)
          else read_number s)"
| "read_elements 0 s = None"
| "read_elements (Suc f) s =
     (case read_value f s of
        None \<Rightarrow> None
      | Some (x, r) \<Rightarrow>
          (case r of
             [] \<Rightarrow> None
           | c # cs \<Rightarrow>
               if c = CHR '']'' then Some ([x], cs)
               else if c = CHR '','' then
                 (case read_elements f cs of None \<Rightarrow> None | Some (xs, r') \<Rightarrow> Some (x # xs, r'))
               else None))"
| "read_members 0 s = None"
| "read_members (Suc f) s =
     (case s of
        [] \<Rightarrow> None
      | q # s1 \<Rightarrow>
          if q \<noteq> quote then None
          else (case read_chars s1 of
                  None \<Rightarrow> None
                | Some (k, s2) \<Rightarrow>
                    (case s2 of
                       [] \<Rightarrow> None
                     | c # s3 \<Rightarrow>
                         if c \<noteq> CHR '':'' then None
                         else (case read_value f s3 of
                                 None \<Rightarrow> None
                               | Some (v, r) \<Rightarrow>
                                   (case r of
                                      [] \<Rightarrow> None
                                    | e # r1 \<Rightarrow>
                                        if e = CHR ''}'' then Some ([(k, v)], r1)
                                        else if e = CHR '','' then
                                          (case read_members f r1 of
                                             None \<Rightarrow> None
                                           | Some (ms, r2) \<Rightarrow> Some ((k, v) # ms, r2))
                                        else None)))))"

definition parse_json :: "string \<Rightarrow> json option" where
  "parse_json s = (case read_value (Suc (length s)) s of Some (v, []) \<Rightarrow> Some v | _ \<Rightarrow> None)"

definition reference_codec :: json_codec where
  "reference_codec = \<lparr>JSON_parse = parse_json, JSON_stringify = print_json\<rparr>"

section \<open>The guard of the save request\<close>

text \<open>
  What holds of the browser between two events: at most one request is out, the ref is
  set while one is out, and the state cell \<open>isSharingView\<close> agrees with the ref, both
  being written by \<open>setSharing\<close> only.
\<close>

definition guard_inv :: "browser \<Rightarrow> bool" where
  "guard_inv b =
     (inflight b \<le> 1 \<and> (inflight b = 1 \<longrightarrow> hasSaveRequest (home b))
      \<and> isSharingView (home b) = hasSaveRequest (home b))"

text \<open>A small page to run the model on: one region, \<open>title\<close>, with the text \<open>Hello\<close>.\<close>

definition title_page :: element where
  "title_page =
     Element [] ''Hello'' [Element [(''id'', ''title'')] ''Hello''
       [Element [(''contenteditable'', ''true'')] ''Hello'' []]]"

section \<open>Properties\<close>

lemma getStaticProps_no_preview:
  "getStaticProps codec s3 False pd =
     (Inr \<lparr>isPreview = False, snapshotId = None, contents = None, hasError = None, message = None\<rparr>, s3)"
  by (simp add: getStaticProps_def)

lemma json_FieldEdit_inverse: "json_FieldEdit (FieldEdit_json e) = Some e"
  by (simp add: json_FieldEdit_def FieldEdit_json_def)

lemma json_edits_list_inverse: "json_edits_list (map FieldEdit_json es) = Some es"
  by (induction es) (simp_all add: json_FieldEdit_inverse)

lemma json_edits_inverse: "json_edits (edits_json es) = Some es"
  by (simp add: json_edits_def edits_json_def json_edits_list_inverse)

lemma fetch_contents_requested:
  "requested (snd (fetch_contents codec s3 sid)) = requested s3 @ [sid @ ''.json'']"
  by (simp add: fetch_contents_def getObject_def split: sum.splits option.splits)

lemma fetch_contents_fst:
  "fst (fetch_contents codec s3 sid) =
     (case respond s3 (sid @ ''.json'') of
        Inl e \<Rightarrow> Inl e
      | Inr b \<Rightarrow> (case JSON_parse codec b of None \<Rightarrow> Inl SyntaxError | Some c \<Rightarrow> Inr c))"
  by (simp add: fetch_contents_def getObject_def split: sum.splits option.splits)

lemma getStaticProps_preview_fst:
  "fst (getStaticProps codec s3 True (Some pd)) =
     (case fst (fetch_contents codec s3 (ref_snapshotId pd)) of
        Inr c \<Rightarrow> Inr \<lparr>isPreview = True, snapshotId = Some (ref_snapshotId pd),
                       contents = Some c, hasError = None, message = None\<rparr>
      | Inl e \<Rightarrow> Inr \<lparr>isPreview = False, snapshotId = None, contents = None,
                       hasError = Some True, message = Some (error_message e)\<rparr>)"
  by (cases "fetch_contents codec s3 (ref_snapshotId pd)")
     (simp add: getStaticProps_def split: sum.splits)

lemma getStaticProps_preview_snd:
  "snd (getStaticProps codec s3 True (Some pd)) = snd (fetch_contents codec s3 (ref_snapshotId pd))"
  by (cases "fetch_contents codec s3 (ref_snapshotId pd)")
     (simp add: getStaticProps_def split: sum.splits)

lemma resolve_preview:
  "resolve codec s3 True (Some pd) =
     (case fst (fetch_contents codec s3 (ref_snapshotId pd)) of
        Inr c \<Rightarrow> Inr (Preview (Some c))
      | Inl e \<Rightarrow> Inr (ErrorPage (Some (error_message e))))"
  by (simp add: resolve_def getStaticProps_preview_fst render_decision_def split: sum.splits)

subsection \<open>Saving, then resolving\<close>

text \<open>
  Claim C1. Round trip: when \<open>SnapshotService.save\<close> accepts a sequence of field edits
  and returns an id, and the parser reads the serialised sequence back, resolving the
  preview of that id fetches \<open>"<id>.json"\<close> and decides for the preview of exactly the
  saved edits; the props carry \<open>isPreview: true\<close>, the id and the edits.
\<close>

theorem save_then_resolve_roundtrip:
  assumes saved: "SnapshotService_save codec fresh write_failure s3 (edits_json es) = Inr (sid, s3')"
    and codec: "JSON_parse codec (JSON_stringify codec (edits_json es)) = Some (edits_json es)"
  shows "resolve codec s3' True (Some \<lparr>ref_snapshotId = sid\<rparr>) = Inr (Preview (Some (edits_json es)))
       \<and> fst (getStaticProps codec s3' True (Some \<lparr>ref_snapshotId = sid\<rparr>)) =
           Inr \<lparr>isPreview = True, snapshotId = Some sid, contents = Some (edits_json es),
                hasError = None, message = None\<rparr>
       \<and> requested (snd (getStaticProps codec s3' True (Some \<lparr>ref_snapshotId = sid\<rparr>))) =
           requested s3' @ [sid @ ''.json'']"
proof -
  from saved have sid: "sid = fresh"
    and store: "s3' = BlobStore_put s3 (fresh @ ''.json'') (JSON_stringify codec (edits_json es))"
    by (auto simp: SnapshotService_save_def json_edits_inverse split: option.splits)
  have body: "respond s3' (sid @ ''.json'') = Inr (JSON_stringify codec (edits_json es))"
    by (simp add: sid store BlobStore_put_def)
  have fetched: "fst (fetch_contents codec s3' sid) = Inr (edits_json es)"
    by (simp add: fetch_contents_fst body codec)
  show ?thesis
    by (simp add: resolve_preview getStaticProps_preview_fst getStaticProps_preview_snd
        fetched fetch_contents_requested)
qed

theorem save_then_resolve_roundtrip_witness:
  "SnapshotService_save reference_codec ''abc'' None (BlobStore_of Map.empty)
       (edits_json [\<lparr>fe_id = ''title'', fe_innerText = ''Hello''\<rparr>]) =
     Inr (''abc'', BlobStore_put (BlobStore_of Map.empty) ''abc.json''
                    (print_json (edits_json [\<lparr>fe_id = ''title'', fe_innerText = ''Hello''\<rparr>])))
   \<and> JSON_parse reference_codec
       (JSON_stringify reference_codec (edits_json [\<lparr>fe_id = ''title'', fe_innerText = ''Hello''\<rparr>])) =
     Some (edits_json [\<lparr>fe_id = ''title'', fe_innerText = ''Hello''\<rparr>])
   \<and> resolve reference_codec
       (BlobStore_put (BlobStore_of Map.empty) ''abc.json''
          (print_json (edits_json [\<lparr>fe_id = ''title'', fe_innerText = ''Hello''\<rparr>])))
       True (Some \<lparr>ref_snapshotId = ''abc''\<rparr>) =
     Inr (Preview (Some (JArr [JObj [(''id'', JStr ''title''), (''innerText'', JStr ''Hello'')]])))"
proof -
  let ?es = "[\<lparr>fe_id = ''title'', fe_innerText = ''Hello''\<rparr>]"
  let ?s3' = "BlobStore_put (BlobStore_of Map.empty) ''abc.json'' (print_json (edits_json ?es))"
  have saved: "SnapshotService_save reference_codec ''abc'' None (BlobStore_of Map.empty)
       (edits_json ?es) = Inr (''abc'', ?s3')"
    by (simp add: SnapshotService_save_def json_edits_inverse reference_codec_def)
  have codec: "JSON_parse reference_codec (JSON_stringify reference_codec (edits_json ?es)) =
      Some (edits_json ?es)"
    by code_simp
  have shape: "edits_json ?es = JArr [JObj [(''id'', JStr ''title''), (''innerText'', JStr ''Hello'')]]"
    by (simp add: edits_json_def FieldEdit_json_def)
  from save_then_resolve_roundtrip [OF saved codec] saved codec shape show ?thesis
    by simp
qed

subsection \<open>Failing fetches\<close>

text \<open>
  Claim C2, as the code has it. When the fetch of a preview is rejected with status code
  403, the classification that stands for "not accessible", the decision is the error
  page with the message \<open>The requested preview edit does not exist!\<close>.
\<close>

theorem not_accessible_message:
  assumes "respond s3 (sid @ ''.json'') = Inl e" and "statusCode e = Some 403"
  shows "resolve codec s3 True (Some \<lparr>ref_snapshotId = sid\<rparr>) =
           Inr (ErrorPage (Some ''The requested preview edit does not exist!''))"
  using assms by (simp add: resolve_preview fetch_contents_fst error_message_def)

theorem not_accessible_message_witness:
  "respond (BlobStore_of Map.empty) (''never-saved'' @ ''.json'') = Inl (AWSError (Some 403))
   \<and> statusCode (AWSError (Some 403)) = Some 403
   \<and> resolve reference_codec (BlobStore_of Map.empty) True (Some \<lparr>ref_snapshotId = ''never-saved''\<rparr>) =
       Inr (ErrorPage (Some ''The requested preview edit does not exist!''))"
proof -
  have r: "respond (BlobStore_of Map.empty) (''never-saved'' @ ''.json'') = Inl (AWSError (Some 403))"
    by (simp add: BlobStore_of_def)
  have c: "statusCode (AWSError (Some 403)) = Some 403"
    by simp
  from not_accessible_message [OF r c] r c show ?thesis
    by simp
qed

text \<open>
  The message of the spec is not the message of the code: a preview that was never
  saved does not resolve to the error \<open>the requested preview does not exist\<close>.
\<close>

theorem not_accessible_message_counterexample:
  "resolve reference_codec (BlobStore_of Map.empty) True (Some \<lparr>ref_snapshotId = ''never-saved''\<rparr>) \<noteq>
     Inr (ErrorPage (Some ''the requested preview does not exist''))"
  by (simp add: resolve_preview fetch_contents_fst error_message_def BlobStore_of_def)

text \<open>
  Claim C3, as the code has it. When the fetch of a preview is rejected with anything but
  status code 403, the decision is the error page with the message \<open>An error has occurred
  while connecting to S3. Please refresh the page to try again.\<close>, and that message is
  not the one of a rejection with status code 403.
\<close>

theorem connection_error_message:
  assumes "respond s3 (sid @ ''.json'') = Inl e" and "statusCode e \<noteq> Some 403"
  shows "resolve codec s3 True (Some \<lparr>ref_snapshotId = sid\<rparr>) =
           Inr (ErrorPage (Some ''An error has occurred while connecting to S3. Please refresh the page to try again.''))
       \<and> error_message e \<noteq> error_message (AWSError (Some 403))"
  using assms by (simp add: resolve_preview fetch_contents_fst error_message_def)

theorem connection_error_message_witness:
  "respond \<lparr>respond = (\<lambda>k. Inl (AWSError None)), requested = []\<rparr> (''abc'' @ ''.json'') = Inl (AWSError None)
   \<and> statusCode (AWSError None) \<noteq> Some 403
   \<and> resolve reference_codec \<lparr>respond = (\<lambda>k. Inl (AWSError None)), requested = []\<rparr> True
        (Some \<lparr>ref_snapshotId = ''abc''\<rparr>) =
       Inr (ErrorPage (Some ''An error has occurred while connecting to S3. Please refresh the page to try again.''))
   \<and> error_message (AWSError None) \<noteq> error_message (AWSError (Some 403))"
proof -
  let ?s3 = "\<lparr>respond = (\<lambda>k. Inl (AWSError None)), requested = []\<rparr>"
  have r: "respond ?s3 (''abc'' @ ''.json'') = Inl (AWSError None)"
    by simp
  have c: "statusCode (AWSError None) \<noteq> Some 403"
    by simp
  from connection_error_message [OF r c] r c show ?thesis
    by simp
qed

text \<open>
  The message of the spec is not the message of the code: a fetch that fails for want of
  a connection (an error without a status code) does not resolve to the error \<open>a
  connection error occurred, please retry\<close>.
\<close>

theorem connection_error_message_counterexample:
  "resolve reference_codec \<lparr>respond = (\<lambda>k. Inl (AWSError None)), requested = []\<rparr> True
       (Some \<lparr>ref_snapshotId = ''abc''\<rparr>) \<noteq>
     Inr (ErrorPage (Some ''a connection error occurred, please retry''))"
  by (simp add: resolve_preview fetch_contents_fst error_message_def)

subsection \<open>Outside preview mode\<close>

text \<open>
  Claim C4. With the preview flag off, the decision is the normal page, whatever the
  preview reference is; the S3 client is left as it was, no key is requested; and the
  result is the same for any two buckets.
\<close>

theorem no_preview_is_normal:
  "resolve codec s3 False ref = Inr Normal
   \<and> snd (getStaticProps codec s3 False ref) = s3
   \<and> requested (snd (getStaticProps codec s3 False ref)) = requested s3
   \<and> resolve codec s3 False ref = resolve codec s3' False ref
   \<and> fst (getStaticProps codec s3 False ref) = fst (getStaticProps codec s3' False ref)"
  by (simp add: resolve_def getStaticProps_no_preview render_decision_def)

subsection \<open>The props of a failed resolution\<close>

text \<open>
  Claim C9. When the \<open>try\<close> block of a preview resolution throws, the props are
  \<open>isPreview: false\<close>, \<open>hasError: true\<close> and a message, with neither \<open>contents\<close> nor
  \<open>snapshotId\<close>, and the page rendered from them is the error page with that message.
\<close>

theorem failed_preview_props:
  assumes "fst (fetch_contents codec s3 sid) = Inl e"
  shows "fst (getStaticProps codec s3 True (Some \<lparr>ref_snapshotId = sid\<rparr>)) =
           Inr \<lparr>isPreview = False, snapshotId = None, contents = None,
                hasError = Some True, message = Some (error_message e)\<rparr>
       \<and> resolve codec s3 True (Some \<lparr>ref_snapshotId = sid\<rparr>) = Inr (ErrorPage (Some (error_message e)))"
  using assms by (simp add: getStaticProps_preview_fst resolve_preview)

theorem failed_preview_props_witness:
  "fst (fetch_contents reference_codec \<lparr>respond = (\<lambda>k. Inl (AWSError (Some 500))), requested = []\<rparr> ''abc'') =
     Inl (AWSError (Some 500))
   \<and> fst (getStaticProps reference_codec \<lparr>respond = (\<lambda>k. Inl (AWSError (Some 500))), requested = []\<rparr>
          True (Some \<lparr>ref_snapshotId = ''abc''\<rparr>)) =
       Inr \<lparr>isPreview = False, snapshotId = None, contents = None, hasError = Some True,
            message = Some ''An error has occurred while connecting to S3. Please refresh the page to try again.''\<rparr>"
proof -
  let ?s3 = "\<lparr>respond = (\<lambda>k. Inl (AWSError (Some 500))), requested = []\<rparr>"
  have f: "fst (fetch_contents reference_codec ?s3 ''abc'') = Inl (AWSError (Some 500))"
    by (simp add: fetch_contents_fst)
  from failed_preview_props [OF f] f show ?thesis
    by (simp add: error_message_def)
qed

text \<open>
  Claim C10. When the fetch succeeds and the body is not valid JSON, the resolution
  returns props all the same, it does not decide for the preview, and the decision is the
  error page with the connection message, not the one for a missing preview: the
  \<open>SyntaxError\<close> is caught and has no status code.
\<close>

theorem unparsable_body_is_connection_error:
  assumes "respond s3 (sid @ ''.json'') = Inr text" and "JSON_parse codec text = None"
  shows "resolve codec s3 True (Some \<lparr>ref_snapshotId = sid\<rparr>) =
           Inr (ErrorPage (Some ''An error has occurred while connecting to S3. Please refresh the page to try again.''))
       \<and> fst (getStaticProps codec s3 True (Some \<lparr>ref_snapshotId = sid\<rparr>)) =
           Inr \<lparr>isPreview = False, snapshotId = None, contents = None, hasError = Some True,
                message = Some ''An error has occurred while connecting to S3. Please refresh the page to try again.''\<rparr>"
  using assms
  by (simp add: resolve_preview getStaticProps_preview_fst fetch_contents_fst error_message_def)

theorem unparsable_body_is_connection_error_witness:
  "respond (BlobStore_of [''abc.json'' \<mapsto> ''not json'']) (''abc'' @ ''.json'') = Inr ''not json''
   \<and> JSON_parse reference_codec ''not json'' = None
   \<and> resolve reference_codec (BlobStore_of [''abc.json'' \<mapsto> ''not json'']) True
        (Some \<lparr>ref_snapshotId = ''abc''\<rparr>) =
       Inr (ErrorPage (Some ''An error has occurred while connecting to S3. Please refresh the page to try again.''))"
proof -
  have r: "respond (BlobStore_of [''abc.json'' \<mapsto> ''not json'']) (''abc'' @ ''.json'') = Inr ''not json''"
    by (simp add: BlobStore_of_def)
  have p: "JSON_parse reference_codec ''not json'' = None"
    by code_simp
  from unparsable_body_is_connection_error [OF r p] r p show ?thesis
    by simp
qed

subsection \<open>Sessions in the browser\<close>

lemma run_Nil: "run codec b [] = b"
  by (simp add: run_def)

lemma run_Cons: "run codec b (e # es) = run codec (step codec b e) es"
  by (simp add: run_def)

lemma save_settled_flags:
  "isSharingView (save_settled codec r s) = hasSaveRequest (save_settled codec r s)
     \<or> save_settled codec r s = s"
  by (simp add: save_settled_def setSharing_def split: promise.splits)

lemma guard_inv_initial: "guard_inv initial"
  by (simp add: guard_inv_def initial_def initial_home_def)

lemma guard_inv_step:
  assumes "guard_inv b"
  shows "guard_inv (step codec b e)"
proof (cases e)
  case ToggleEdit
  with assms show ?thesis by (simp add: guard_inv_def toggleEdit_def)
next
  case (Share document)
  with assms show ?thesis by (auto simp: guard_inv_def share_def setSharing_def)
next
  case (Settled r)
  show ?thesis
  proof (cases "inflight b = 0")
    case True
    with assms Settled show ?thesis by simp
  next
    case False
    with assms have one: "inflight b = 1" and eq: "isSharingView (home b) = hasSaveRequest (home b)"
      by (auto simp: guard_inv_def)
    from save_settled_flags [of codec r "home b"] eq
    have "isSharingView (save_settled codec r (home b)) = hasSaveRequest (save_settled codec r (home b))"
      by auto
    with Settled one show ?thesis by (simp add: guard_inv_def)
  qed
next
  case ClearSnapshot
  with assms show ?thesis by (simp add: guard_inv_def clearSnapshot_def)
next
  case ClearError
  with assms show ?thesis by (simp add: guard_inv_def onClearError_def)
qed

lemma guard_inv_run: "guard_inv b \<Longrightarrow> guard_inv (run codec b es)"
  by (induction es arbitrary: b) (simp_all add: run_Nil run_Cons guard_inv_step)

lemma step_sent:
  assumes "guard_inv b"
  shows "length (sent (step codec b e)) =
           length (sent b) + (if \<not> isSharingView (home b) \<and> isSharingView (home (step codec b e)) then 1 else 0)"
proof (cases e)
  case ToggleEdit
  then show ?thesis by (simp add: toggleEdit_def)
next
  case (Share document)
  with assms show ?thesis by (auto simp: guard_inv_def share_def setSharing_def)
next
  case (Settled r)
  then show ?thesis
    by (auto simp: save_settled_def setSharing_def split: promise.splits)
next
  case ClearSnapshot
  then show ?thesis by (simp add: clearSnapshot_def)
next
  case ClearError
  then show ?thesis by (simp add: onClearError_def)
qed

lemma run_sent:
  "guard_inv b \<Longrightarrow>
     length (sent (run codec b es)) = length (sent b) + entries_into_sharing codec b es"
proof (induction es arbitrary: b)
  case Nil
  then show ?case by (simp add: run_Nil)
next
  case (Cons e es)
  from Cons.prems have "guard_inv (step codec b e)" by (rule guard_inv_step)
  from Cons.IH [OF this] step_sent [OF Cons.prems, of codec e] show ?case
    by (simp add: run_Cons)
qed

lemma share_guarded: "hasSaveRequest (home b) \<Longrightarrow> share codec document b = b"
  by (simp add: share_def)

text \<open>
  Claim C5. Never two saves in flight: along every sequence of events from the initial
  state at most one save request is out; while one is out, \<open>share\<close> changes nothing and
  sends nothing; and the number of requests sent is the number of accepted transitions
  into sharing.
\<close>

theorem at_most_one_save_in_flight:
  "inflight (run codec initial es) \<le> 1
   \<and> (0 < inflight (run codec initial es) \<longrightarrow>
        share codec document (run codec initial es) = run codec initial es)
   \<and> length (sent (run codec initial es)) = entries_into_sharing codec initial es"
proof -
  have inv: "guard_inv (run codec initial es)"
    by (rule guard_inv_run [OF guard_inv_initial])
  then have le: "inflight (run codec initial es) \<le> 1"
    by (simp add: guard_inv_def)
  from inv have "0 < inflight (run codec initial es) \<Longrightarrow> hasSaveRequest (home (run codec initial es))"
    by (auto simp: guard_inv_def)
  then have guarded: "0 < inflight (run codec initial es) \<longrightarrow>
      share codec document (run codec initial es) = run codec initial es"
    by (simp add: share_guarded)
  have "length (sent (run codec initial es)) = length (sent initial) + entries_into_sharing codec initial es"
    by (rule run_sent [OF guard_inv_initial])
  then have count: "length (sent (run codec initial es)) = entries_into_sharing codec initial es"
    by (simp add: initial_def)
  from le guarded count show ?thesis by blast
qed

theorem at_most_one_save_in_flight_witness:
  "0 < inflight (run reference_codec initial [ToggleEdit, Share title_page])
   \<and> share reference_codec title_page (run reference_codec initial [ToggleEdit, Share title_page]) =
       run reference_codec initial [ToggleEdit, Share title_page]
   \<and> length (sent (run reference_codec initial [ToggleEdit, Share title_page, Share title_page])) = 1"
proof -
  have pending: "0 < inflight (run reference_codec initial [ToggleEdit, Share title_page])"
    by (simp add: run_def initial_def initial_home_def toggleEdit_def share_def)
  have count: "entries_into_sharing reference_codec initial [ToggleEdit, Share title_page, Share title_page] = 1"
    by (simp add: initial_def initial_home_def toggleEdit_def share_def setSharing_def)
  from at_most_one_save_in_flight [of reference_codec "[ToggleEdit, Share title_page]" title_page]
    at_most_one_save_in_flight [of reference_codec "[ToggleEdit, Share title_page, Share title_page]" title_page]
    pending count
  show ?thesis by simp
qed

lemma save_settled_pending:
  "save_settled codec (Response False (Inl e)) s = s"
  by (simp add: save_settled_def response_promise_def)

lemma save_settled_releases:
  "response_promise codec r \<noteq> Pending \<Longrightarrow>
     \<not> hasSaveRequest (save_settled codec r s) \<and> \<not> isSharingView (save_settled codec r s)"
  by (simp add: save_settled_def setSharing_def split: promise.splits)

lemma response_promise_Pending_iff:
  "response_promise codec r = Pending \<longleftrightarrow> (\<exists>e. r = Response False (Inl e))"
  by (auto simp: response_promise_def split: fetch_outcome.splits sum.splits option.splits)

text \<open>
  Claim C6, where the code misses it. A response that is not ok and whose body cannot be
  read leaves the promise of line 109 pending: neither \<open>catch\<close> nor \<open>finally\<close> runs,
  the guard stays set although no request is out any more, and the next \<open>share\<close> is
  suppressed. For every other end of the request \<open>save_settled_releases\<close> shows the
  release.
\<close>

theorem guard_stuck_after_unreadable_error_body:
  "hasSaveRequest (home (run reference_codec initial
      [ToggleEdit, Share title_page, Settled (Response False (Inl TypeError))]))
   \<and> inflight (run reference_codec initial
      [ToggleEdit, Share title_page, Settled (Response False (Inl TypeError))]) = 0
   \<and> length (sent (run reference_codec initial
      [ToggleEdit, Share title_page, Settled (Response False (Inl TypeError))])) = 1
   \<and> length (sent (run reference_codec initial
      [ToggleEdit, Share title_page, Settled (Response False (Inl TypeError)), Share title_page])) = 1"
  by (simp add: run_def initial_def initial_home_def toggleEdit_def share_def setSharing_def
      save_settled_pending)

text \<open>
  Claim C7, as the code has it. Dismissing the link dialog, or the error dialog when no
  link is shown behind it, closes that dialog and leaves edit mode as it was: the
  session is in \<open>Viewing\<close> afterwards when edit mode is off, and otherwise in \<open>Editing\<close>
  (in \<open>Sharing\<close> while a save is pending).
\<close>

theorem dismissal_closes_dialog_only:
  "(session_state s = ShowingLink j \<longrightarrow>
      session_state (clearSnapshot s) =
        (if isEdit s then (if isSharingView s then Sharing else Editing) else Viewing))
   \<and> (session_state s = ShowingError e \<and> shown_link s = None \<longrightarrow>
      session_state (onClearError s) =
        (if isEdit s then (if isSharingView s then Sharing else Editing) else Viewing))
   \<and> isEdit (clearSnapshot s) = isEdit s \<and> isEdit (onClearError s) = isEdit s"
  by (auto simp: session_state_def shown_link_def clearSnapshot_def onClearError_def
      split: option.splits if_splits)

theorem dismissal_closes_dialog_only_witness:
  "session_state (home (run reference_codec initial
      [ToggleEdit, Share title_page,
       Settled (Response True (Inr (print_json (JObj [(''snapshotId'', JStr ''abc'')]))))])) =
     ShowingLink (JStr ''abc'')
   \<and> session_state (clearSnapshot (home (run reference_codec initial
      [ToggleEdit, Share title_page,
       Settled (Response True (Inr (print_json (JObj [(''snapshotId'', JStr ''abc'')]))))]))) = Editing
   \<and> session_state (home (run reference_codec initial
      [ToggleEdit, Share title_page, ToggleEdit, Settled (Response False (Inr ''busy''))])) =
     ShowingError (Error ''busy'')
   \<and> shown_link (home (run reference_codec initial
      [ToggleEdit, Share title_page, ToggleEdit, Settled (Response False (Inr ''busy''))])) = None
   \<and> session_state (onClearError (home (run reference_codec initial
      [ToggleEdit, Share title_page, ToggleEdit, Settled (Response False (Inr ''busy''))]))) = Viewing"
proof -
  let ?linked = "home (run reference_codec initial
      [ToggleEdit, Share title_page,
       Settled (Response True (Inr (print_json (JObj [(''snapshotId'', JStr ''abc'')]))))])"
  let ?failed = "home (run reference_codec initial
      [ToggleEdit, Share title_page, ToggleEdit, Settled (Response False (Inr ''busy''))])"
  have link: "session_state ?linked = ShowingLink (JStr ''abc'')"
    by code_simp
  have link_flags: "isEdit ?linked \<and> \<not> isSharingView ?linked"
    by code_simp
  have err: "session_state ?failed = ShowingError (Error ''busy'')"
    by code_simp
  have err_flags: "shown_link ?failed = None \<and> \<not> isEdit ?failed"
    by code_simp
  from dismissal_closes_dialog_only [of ?linked "JStr ''abc''" "Error ''busy''"]
    dismissal_closes_dialog_only [of ?failed "JStr ''abc''" "Error ''busy''"]
    link link_flags err err_flags
  show ?thesis by simp
qed

text \<open>
  After a share made from edit mode the link dialog is shown, and dismissing it leaves
  the page in edit mode: the session is not in \<open>Viewing\<close>.
\<close>

theorem dismissal_counterexample:
  "session_state (home (run reference_codec initial
      [ToggleEdit, Share title_page,
       Settled (Response True (Inr (print_json (JObj [(''snapshotId'', JStr ''abc'')]))))])) =
     ShowingLink (JStr ''abc'')
   \<and> session_state (home (run reference_codec initial
      [ToggleEdit, Share title_page,
       Settled (Response True (Inr (print_json (JObj [(''snapshotId'', JStr ''abc'')])))),
       ClearSnapshot])) \<noteq> Viewing"
  by code_simp

subsection \<open>What \<open>share\<close> posts\<close>

lemma select_below_set:
  "set (select_below d) =
     {(p, c). (p, c) \<in> parent_child d \<and> hasAttribute p ''id'' \<and> contenteditable_true c}"
proof (induction d)
  case (Element as t cs)
  then show ?case by auto
qed

text \<open>
  Claim C8. An accepted \<open>share\<close> sends exactly one request, a POST to \<open>/api/save\<close>
  with JSON content type, whose body is the serialised array of the objects
  \<open>{id, innerText}\<close> of the editable regions in document order; the regions read are all
  the elements with \<open>contenteditable="true"\<close> below an element that has an \<open>id\<close>, each
  with the id of its parent and its own current text.
\<close>

theorem share_posts_editable_regions:
  assumes "\<not> hasSaveRequest (home b)"
  shows "sent (share codec document b) =
           sent b @ [\<lparr>url = ''/api/save'', http_method = ''POST'',
                      body = JSON_stringify codec
                        (JArr (map (\<lambda>(p, c). JObj [(''id'', JStr (element_id p)),
                                                    (''innerText'', JStr (innerText c))])
                                  (querySelectorAll document))),
                      content_type = ''application/json''\<rparr>]
       \<and> set (querySelectorAll document) =
           {(p, c). (p, c) \<in> parent_child document \<and> hasAttribute p ''id'' \<and> contenteditable_true c}"
proof -
  have "edits_json (persistContents document) =
      JArr (map (\<lambda>(p, c). JObj [(''id'', JStr (element_id p)), (''innerText'', JStr (innerText c))])
             (querySelectorAll document))"
    by (simp add: edits_json_def persistContents_def FieldEdit_json_def case_prod_unfold)
  with assms show ?thesis
    by (simp add: share_def querySelectorAll_def select_below_set)
qed

theorem share_posts_editable_regions_witness:
  "\<not> hasSaveRequest (home initial)
   \<and> sent (share reference_codec title_page initial) =
       [\<lparr>url = ''/api/save'', http_method = ''POST'',
         body = print_json (JArr [JObj [(''id'', JStr ''title''), (''innerText'', JStr ''Hello'')]]),
         content_type = ''application/json''\<rparr>]"
proof -
  have g: "\<not> hasSaveRequest (home initial)"
    by (simp add: initial_def initial_home_def)
  have q: "querySelectorAll title_page =
      [(Element [(''id'', ''title'')] ''Hello'' [Element [(''contenteditable'', ''true'')] ''Hello'' []],
        Element [(''contenteditable'', ''true'')] ''Hello'' [])]"
    by (simp add: querySelectorAll_def title_page_def hasAttribute_def contenteditable_true_def)
  from share_posts_editable_regions [OF g, of reference_codec title_page] g q show ?thesis
    by (simp add: initial_def reference_codec_def element_id_def)
qed

end
